theory Spec2Isabelle
  imports Complex_Main
begin

section \<open>Strings\<close>

text \<open>
  A Python \<open>str\<close> is a sequence of Unicode code points; a code point is a natural
  number. The literals of the script are ASCII, except for the check mark U+2705 that
  opens the last message.
\<close>

type_synonym py_str = "nat list"

definition str :: "string \<Rightarrow> py_str" where
  "str s = map of_char s"

text \<open>
  \<open>str.isspace\<close> on one code point: the characters that \<open>str.strip()\<close> with no
  argument removes.
\<close>

definition is_space :: "nat \<Rightarrow> bool" where
  "is_space c =
     ((9 \<le> c \<and> c \<le> 13) \<or> (28 \<le> c \<and> c \<le> 32) \<or> c = 133 \<or> c = 160 \<or> c = 5760
      \<or> (8192 \<le> c \<and> c \<le> 8202) \<or> c = 8232 \<or> c = 8233 \<or> c = 8239 \<or> c = 8287
      \<or> c = 12288)"

text \<open>\<open>s.strip()\<close>: leading and trailing whitespace removed, the middle kept.\<close>

definition strip :: "py_str \<Rightarrow> py_str" where
  "strip s = rev (dropWhile is_space (rev (dropWhile is_space s)))"

text \<open>\<open>Index.str.strip()\<close>: \<open>strip\<close> on every label, in order.\<close>

definition str_strip :: "py_str list \<Rightarrow> py_str list" where
  "str_strip names = map strip names"

section \<open>Tables\<close>

text \<open>
  A pandas \<open>DataFrame\<close> as the script uses it: the columns in file order, each a
  label and its cells in row order. Labels may repeat (pandas allows it), and the script
  never looks into a cell, so the cell type is a parameter.
\<close>

type_synonym 'v dataframe = "(py_str \<times> 'v list) list"

datatype error = FileNotFoundError | ParserError | KeyError | ValueError | OSError

text \<open>\<open>df.columns\<close>: the labels, in column order.\<close>

definition columns :: "'v dataframe \<Rightarrow> py_str list" where
  "columns d = map fst d"

text \<open>
  \<open>df.columns = names\<close>: the labels are replaced, the cells stay. pandas raises
  \<open>ValueError\<close> when the number of labels is not the number of columns.
\<close>

definition set_columns :: "py_str list \<Rightarrow> 'v dataframe \<Rightarrow> error + 'v dataframe" where
  "set_columns names d =
     (if length names = length d then Inr (zip names (map snd d)) else Inl ValueError)"

text \<open>
  \<open>df[key]\<close> with a label: \<open>KeyError\<close> when no column has the label; otherwise
  every column with that label, in column order (a \<open>Series\<close> when there is one, a
  \<open>DataFrame\<close> of the matching columns when the label repeats). Both are given here
  as the list of selected columns.
\<close>

definition getitem :: "'v dataframe \<Rightarrow> py_str \<Rightarrow> error + 'v list list" where
  "getitem d key =
     (case map snd (filter (\<lambda>c. fst c = key) d) of
        [] \<Rightarrow> Inl KeyError
      | x # xs \<Rightarrow> Inr (x # xs))"

section \<open>The chart\<close>

text \<open>
  The state of \<open>matplotlib.pyplot\<close> that the script builds: the lines drawn so far
  and the decorations of the axes. A new figure has no line, empty labels and title, no
  legend, no grid and automatic ticks.
\<close>

record 'v line2d =
  xdata :: "'v list"
  ydata :: "'v list"
  marker :: py_str
  linestyle :: py_str
  label :: py_str

record 'v figure =
  lines :: "'v line2d list"
  xlabel :: py_str
  ylabel :: py_str
  title :: py_str
  legend :: "py_str list option"
  grid :: "(py_str \<times> real) option"
  xtick_locs :: "'v list option"

definition new_figure :: "'v figure" where
  "new_figure =
     \<lparr>lines = [], xlabel = [], ylabel = [], title = [], legend = None, grid = None,
      xtick_locs = None\<rparr>"

section \<open>The process state\<close>

text \<open>
  What \<open>print\<close> receives: the script prints string literals and one list of strings.
  A call of \<open>print\<close> writes its arguments on one line of the standard output.
\<close>

datatype pyobj = Str py_str | StrList "py_str list"

text \<open>
  A file is known by what the library calls make of it: \<open>Table d\<close> is a delimited
  file that \<open>read_csv\<close> parses to \<open>d\<close>, \<open>Garbage\<close> one it cannot parse, and
  \<open>Image f dpi bbox\<close> a picture written by \<open>savefig\<close>.
\<close>

datatype 'v fs_entry = Table "'v dataframe" | Garbage | Image "'v figure" nat py_str

record 'v state =
  fs :: "py_str \<Rightarrow> 'v fs_entry option"
  writable :: "py_str \<Rightarrow> bool"
  stdout :: "pyobj list list"
  df :: "'v dataframe"
  fig :: "'v figure"

text \<open>
  The state in which the interpreter starts the script, for a file system \<open>files\<close>
  and the paths \<open>w\<close> that can be written: nothing printed, the variable \<open>df\<close> not
  yet assigned (no statement reads it before line 5 assigns it), a new figure.
\<close>

definition initial :: "(py_str \<Rightarrow> 'v fs_entry option) \<Rightarrow> (py_str \<Rightarrow> bool) \<Rightarrow> 'v state" where
  "initial files w = \<lparr>fs = files, writable = w, stdout = [], df = [], fig = new_figure\<rparr>"

text \<open>
  A statement runs in a state and ends in a state, with the exception it raised, if
  any. The script catches nothing, so the first exception ends the run.
\<close>

type_synonym 'v stmt = "'v state \<Rightarrow> error option \<times> 'v state"

fun exec :: "'v stmt list \<Rightarrow> 'v stmt" where
  "exec [] s = (None, s)"
| "exec (c # cs) s =
     (case c s of
        (Some e, s') \<Rightarrow> (Some e, s')
      | (None, s') \<Rightarrow> exec cs s')"

section \<open>The library calls\<close>

text \<open>
  \<open>pd.read_csv(path)\<close>: \<open>FileNotFoundError\<close> for a missing file, a parser error
  for a file that is not a delimited table.
\<close>

definition read_csv :: "py_str \<Rightarrow> 'v state \<Rightarrow> error + 'v dataframe" where
  "read_csv path s =
     (case fs s path of
        None \<Rightarrow> Inl FileNotFoundError
      | Some (Table d) \<Rightarrow> Inr d
      | Some Garbage \<Rightarrow> Inl ParserError
      | Some (Image f dpi bbox) \<Rightarrow> Inl ParserError)"

definition py_print :: "pyobj list \<Rightarrow> 'v stmt" where
  "py_print args s = (None, s\<lparr>stdout := stdout s @ [args]\<rparr>)"

text \<open>
  \<open>plt.plot(x, y, marker=m, linestyle=ls, label=lab)\<close>. Each of \<open>x\<close> and \<open>y\<close>
  is one column or several; with several, the columns are separate data sets: a
  \<open>ValueError\<close> when both have several and their numbers differ, otherwise as many
  lines as the larger number, line \<open>j\<close> from column \<open>j mod ncx\<close> of \<open>x\<close> and column
  \<open>j mod ncy\<close> of \<open>y\<close>, all with the same label. The columns of one table have the
  same number of rows, so the comparison of the row counts of \<open>x\<close> and \<open>y\<close> never
  fails here and is left out.

  A line keeps the label given unless that is empty: \<open>Axes.add_line\<close> then names it
  \<open>_child\<close> followed by the number of artists already on the axes, in decimal. Until
  the loop is over the axes hold nothing but the lines drawn so far.
\<close>

fun decimal :: "nat \<Rightarrow> py_str" where
  "decimal n = (if n < 10 then [48 + n] else decimal (n div 10) @ [48 + n mod 10])"

declare decimal.simps [simp del]

definition line_label :: "py_str \<Rightarrow> nat \<Rightarrow> py_str" where
  "line_label lab n = (if lab = [] then str ''_child'' @ decimal n else lab)"

definition plot :: "'v list list \<Rightarrow> 'v list list \<Rightarrow> py_str \<Rightarrow> py_str \<Rightarrow> py_str \<Rightarrow> 'v stmt" where
  "plot x y m ls lab s =
     (let ncx = length x; ncy = length y in
      if 1 < ncx \<and> 1 < ncy \<and> ncx \<noteq> ncy then (Some ValueError, s)
      else if ncx = 0 \<or> ncy = 0 then (None, s)
      else (None, s\<lparr>fig := (fig s)\<lparr>lines := lines (fig s) @
              map (\<lambda>j. \<lparr>xdata = x ! (j mod ncx), ydata = y ! (j mod ncy),
                        marker = m, linestyle = ls,
                        label = line_label lab (length (lines (fig s)) + j)\<rparr>)
                [0..<max ncx ncy]\<rparr>\<rparr>))"

definition plt_xlabel :: "py_str \<Rightarrow> 'v stmt" where
  "plt_xlabel t s = (None, s\<lparr>fig := (fig s)\<lparr>xlabel := t\<rparr>\<rparr>)"

definition plt_ylabel :: "py_str \<Rightarrow> 'v stmt" where
  "plt_ylabel t s = (None, s\<lparr>fig := (fig s)\<lparr>ylabel := t\<rparr>\<rparr>)"

definition plt_title :: "py_str \<Rightarrow> 'v stmt" where
  "plt_title t s = (None, s\<lparr>fig := (fig s)\<lparr>title := t\<rparr>\<rparr>)"

text \<open>
  \<open>plt.legend()\<close> with no argument: one entry per line drawn so far, showing its
  label; matplotlib leaves out a line whose label is empty or starts with an
  underscore. With no line the legend is there and empty.
\<close>

fun shown_in_legend :: "py_str \<Rightarrow> bool" where
  "shown_in_legend [] = False"
| "shown_in_legend (c # cs) = (c \<noteq> 95)"

definition plt_legend :: "'v stmt" where
  "plt_legend s =
     (None, s\<lparr>fig := (fig s)\<lparr>legend := Some (filter shown_in_legend (map label (lines (fig s))))\<rparr>\<rparr>)"

text \<open>\<open>plt.grid(True, linestyle=ls, alpha=a)\<close>: the grid lines are shown, in that style.\<close>

definition plt_grid :: "py_str \<Rightarrow> real \<Rightarrow> 'v stmt" where
  "plt_grid ls a s = (None, s\<lparr>fig := (fig s)\<lparr>grid := Some (ls, a)\<rparr>\<rparr>)"

text \<open>
  \<open>plt.xticks(ticks)\<close>: the tick locations are the given sequence, as it is. The
  locations must be one-dimensional: matplotlib raises \<open>ValueError\<close> for a table of
  several columns.
\<close>

definition plt_xticks :: "'v list list \<Rightarrow> 'v stmt" where
  "plt_xticks ticks s =
     (case ticks of
        [locs] \<Rightarrow> (None, s\<lparr>fig := (fig s)\<lparr>xtick_locs := Some locs\<rparr>\<rparr>)
      | _ \<Rightarrow> (Some ValueError, s))"

text \<open>
  \<open>plt.savefig(fname, dpi=dpi, bbox_inches=bbox)\<close>: the current figure is written to
  \<open>fname\<close>; \<open>OSError\<close>, and no file, when the destination cannot be written.
\<close>

definition plt_savefig :: "py_str \<Rightarrow> nat \<Rightarrow> py_str \<Rightarrow> 'v stmt" where
  "plt_savefig fname dpi bbox s =
     (if writable s fname then (None, s\<lparr>fs := (fs s)(fname \<mapsto> Image (fig s) dpi bbox)\<rparr>)
      else (Some OSError, s))"

section \<open>The script\<close>

text \<open>Line 5: \<open>df = pd.read_csv("times.csv")\<close>.\<close>

definition load_stmt :: "'v stmt" where
  "load_stmt s =
     (case read_csv (str ''times.csv'') s of
        Inl e \<Rightarrow> (Some e, s)
      | Inr d \<Rightarrow> (None, s\<lparr>df := d\<rparr>))"

text \<open>Line 8: \<open>df.columns = df.columns.str.strip()\<close>.\<close>

definition normalize_stmt :: "'v stmt" where
  "normalize_stmt s =
     (case set_columns (str_strip (columns (df s))) (df s) of
        Inl e \<Rightarrow> (Some e, s)
      | Inr d \<Rightarrow> (None, s\<lparr>df := d\<rparr>))"

text \<open>Line 9: \<open>print("Columns:", df.columns.tolist())\<close>.\<close>

definition print_columns_stmt :: "'v stmt" where
  "print_columns_stmt s = py_print [Str (str ''Columns:''), StrList (columns (df s))] s"

text \<open>
  Lines 12 and 13: \<open>for col in df.columns[1:]: plt.plot(df["Size"], df[col], marker='o',
  linestyle='-', label=col)\<close>. The arguments are evaluated from the left, so the lookup
  of \<open>"Size"\<close> comes first in every round.
\<close>

fun plot_loop :: "py_str list \<Rightarrow> 'v stmt" where
  "plot_loop [] s = (None, s)"
| "plot_loop (col # cols) s =
     (case getitem (df s) (str ''Size'') of
        Inl e \<Rightarrow> (Some e, s)
      | Inr x \<Rightarrow>
          (case getitem (df s) col of
             Inl e \<Rightarrow> (Some e, s)
           | Inr y \<Rightarrow>
               (case plot x y (str ''o'') (str ''-'') col s of
                  (Some e, s') \<Rightarrow> (Some e, s')
                | (None, s') \<Rightarrow> plot_loop cols s')))"

definition plot_stmt :: "'v stmt" where
  "plot_stmt s = plot_loop (drop 1 (columns (df s))) s"

text \<open>Lines 15 to 19: the labels, the title, the legend and the grid.\<close>

definition styling :: "'v stmt list" where
  "styling =
     [plt_xlabel (str ''Number of Matrices''),
      plt_ylabel (str ''Execution Time (ms)''),
      plt_title (str ''Matrix Chain Multiplication: D&C vs DP''),
      plt_legend,
      plt_grid (str ''--'') 0.7]"

text \<open>Line 20: \<open>plt.xticks(df["Size"])\<close>.\<close>

definition xticks_stmt :: "'v stmt" where
  "xticks_stmt s =
     (case getitem (df s) (str ''Size'') of
        Inl e \<Rightarrow> (Some e, s)
      | Inr ticks \<Rightarrow> plt_xticks ticks s)"

text \<open>Line 25: \<open>plt.savefig("plot.png", dpi=300, bbox_inches="tight")\<close>.\<close>

definition savefig_stmt :: "'v stmt" where
  "savefig_stmt = plt_savefig (str ''plot.png'') 300 (str ''tight'')"

text \<open>Line 26: the last message, a check mark (U+2705) and the text.\<close>

definition saved_message :: py_str where
  "saved_message = 9989 # str '' Plot saved as plot.png (DP visible at 0)''"

definition print_saved_stmt :: "'v stmt" where
  "print_saved_stmt = py_print [Str saved_message]"

definition script :: "'v stmt list" where
  "script =
     [load_stmt, normalize_stmt, print_columns_stmt, plot_stmt] @ styling @
     [xticks_stmt, savefig_stmt, print_saved_stmt]"

definition main :: "'v stmt" where
  "main = exec script"

section \<open>Notation for the results\<close>

text \<open>The table with every label trimmed and the cells as they were.\<close>

abbreviation trimmed :: "'v dataframe \<Rightarrow> 'v dataframe" where
  "trimmed d \<equiv> map (\<lambda>c. (strip (fst c), snd c)) d"

text \<open>The figure after lines 15 to 19.\<close>

abbreviation styled :: "'v figure \<Rightarrow> 'v figure" where
  "styled f \<equiv>
     f\<lparr>xlabel := str ''Number of Matrices'',
       ylabel := str ''Execution Time (ms)'',
       title := str ''Matrix Chain Multiplication: D&C vs DP'',
       legend := Some (filter shown_in_legend (map label (lines f))),
       grid := Some (str ''--'', 0.7)\<rparr>"

text \<open>The arguments of the \<open>print\<close> of line 9, for the table as loaded.\<close>

abbreviation columns_line :: "'v dataframe \<Rightarrow> pyobj list" where
  "columns_line d \<equiv> [Str (str ''Columns:''), StrList (str_strip (columns d))]"

text \<open>The line that one round of the loop draws for the column \<open>c\<close>, over the cells \<open>x\<close>.\<close>

abbreviation series :: "'v list \<Rightarrow> py_str \<times> 'v list \<Rightarrow> 'v line2d" where
  "series x c \<equiv>
     \<lparr>xdata = x, ydata = snd c, marker = str ''o'', linestyle = str ''-'', label = fst c\<rparr>"

section \<open>Example inputs\<close>

text \<open>The table of the scenario: the header \<open>Size, DP , DC\<close> and the rows (1, 10, 12) and (2, 20, 18).\<close>

definition example_table :: "int dataframe" where
  "example_table = [(str ''Size'', [1, 2]), (str '' DP '', [10, 20]), (str '' DC'', [12, 18])]"

text \<open>The start of a run with that table in \<open>times.csv\<close> and every path writable.\<close>

definition example_state :: "int state" where
  "example_state = initial [str ''times.csv'' \<mapsto> Table example_table] (\<lambda>p. True)"

text \<open>The start of a run with no file at all.\<close>

definition missing_state :: "int state" where
  "missing_state = initial Map.empty (\<lambda>p. True)"

text \<open>The start of a run with a \<open>times.csv\<close> that is not a table.\<close>

definition garbage_state :: "int state" where
  "garbage_state = initial [str ''times.csv'' \<mapsto> Garbage] (\<lambda>p. True)"

text \<open>A \<open>times.csv\<close> whose only column is \<open>Size\<close>, with blanks around the label.\<close>

definition size_only_files :: "py_str \<Rightarrow> int fs_entry option" where
  "size_only_files = [str ''times.csv'' \<mapsto> Table [(str '' Size '', [1, 2])]]"

text \<open>A table with no column named \<open>Size\<close>.\<close>

definition no_size_table :: "int dataframe" where
  "no_size_table = [(str ''N'', [1, 2]), (str ''DP'', [10, 20])]"

text \<open>The start of a run with that table.\<close>

definition no_size_state :: "int state" where
  "no_size_state = initial [str ''times.csv'' \<mapsto> Table no_size_table] (\<lambda>p. True)"

text \<open>The start of a run with a table whose \<open>Size\<close> column holds the value 1 twice.\<close>

definition repeated_size_state :: "int state" where
  "repeated_size_state =
     initial [str ''times.csv'' \<mapsto> Table [(str ''Size'', [1, 1]), (str ''DP'', [10, 20])]]
       (\<lambda>p. True)"

text \<open>A table in which two labels are the same after trimming.\<close>

definition repeated_label_table :: "int dataframe" where
  "repeated_label_table = [(str ''Size'', [1, 2]), (str ''DP'', [10, 20]), (str '' DP'', [12, 18])]"

text \<open>The start of a run with that table.\<close>

definition repeated_label_state :: "int state" where
  "repeated_label_state = initial [str ''times.csv'' \<mapsto> Table repeated_label_table] (\<lambda>p. True)"

text \<open>A table whose second label is a blank: the header \<open>Size, ,DP\<close>.\<close>

definition blank_label_table :: "int dataframe" where
  "blank_label_table = [(str ''Size'', [1, 2]), (str '' '', [10, 20]), (str ''DP'', [12, 18])]"

text \<open>The start of a run with that table.\<close>

definition blank_label_state :: "int state" where
  "blank_label_state = initial [str ''times.csv'' \<mapsto> Table blank_label_table] (\<lambda>p. True)"

text \<open>A table with one column, not named \<open>Size\<close>, and the start of a run with it.\<close>

definition lone_column_table :: "int dataframe" where
  "lone_column_table = [(str ''N'', [1, 2])]"

definition lone_column_state :: "int state" where
  "lone_column_state = initial [str ''times.csv'' \<mapsto> Table lone_column_table] (\<lambda>p. True)"

section \<open>Facts about the statements\<close>

text \<open>The defining equations with which a run on a given input is evaluated.\<close>

lemmas run_defs =
  main_def script_def styling_def load_stmt_def read_csv_def normalize_stmt_def set_columns_def
  print_columns_stmt_def py_print_def plot_stmt_def getitem_def plot_def plt_xlabel_def
  plt_ylabel_def plt_title_def plt_legend_def plt_grid_def xticks_stmt_def plt_xticks_def
  savefig_stmt_def plt_savefig_def print_saved_stmt_def columns_def str_strip_def strip_def
  is_space_def str_def initial_def new_figure_def line_label_def decimal.simps

lemma dropWhile_unchanged: "xs = [] \<or> \<not> P (hd xs) \<Longrightarrow> dropWhile P xs = xs"
  by (cases xs) auto

lemma rev_dropWhile_rev_Cons:
  "\<not> P y \<Longrightarrow> rev (dropWhile P (rev (y # ys))) = y # rev (dropWhile P (rev ys))"
  by (simp add: dropWhile_append)

lemma rev_dropWhile_rev_hd:
  assumes "ys = [] \<or> \<not> P (hd ys)"
  shows "rev (dropWhile P (rev ys)) = [] \<or> \<not> P (hd (rev (dropWhile P (rev ys))))"
proof (cases ys)
  case Nil
  then show ?thesis by simp
next
  case (Cons y ys')
  with assms have "\<not> P y" by simp
  then have "rev (dropWhile P (rev (y # ys'))) = y # rev (dropWhile P (rev ys'))"
    by (rule rev_dropWhile_rev_Cons)
  with Cons \<open>\<not> P y\<close> show ?thesis by simp
qed

lemma dropWhile_hd: "dropWhile P xs = [] \<or> \<not> P (hd (dropWhile P xs))"
  by (induction xs) auto

lemma dropWhile_rev_dropWhile:
  "dropWhile P (rev (dropWhile P (rev (dropWhile P xs)))) = rev (dropWhile P (rev (dropWhile P xs)))"
  by (rule dropWhile_unchanged, rule rev_dropWhile_rev_hd, rule dropWhile_hd)

lemma strip_strip: "strip (strip s) = strip s"
  by (simp add: strip_def dropWhile_rev_dropWhile)

lemma zip_str_strip: "zip (str_strip (columns d)) (map snd d) = trimmed d"
  by (induction d) (simp_all add: str_strip_def columns_def)

lemma normalize_stmt_eq: "normalize_stmt s = (None, s\<lparr>df := trimmed (df s)\<rparr>)"
  by (simp add: normalize_stmt_def set_columns_def zip_str_strip) (simp add: str_strip_def columns_def)

lemma columns_trimmed: "columns (trimmed d) = str_strip (columns d)"
  by (simp add: columns_def str_strip_def)

lemma exec_append:
  "exec (xs @ ys) s = (case exec xs s of (Some e, s') \<Rightarrow> (Some e, s') | (None, s') \<Rightarrow> exec ys s')"
  by (induction xs arbitrary: s) (auto split: prod.splits option.splits)

lemma plot_frame:
  "plot x y m ls lab s = (r, s') \<Longrightarrow>
     fs s' = fs s \<and> writable s' = writable s \<and> stdout s' = stdout s \<and> df s' = df s"
  by (auto simp: plot_def Let_def split: if_splits)

lemma plot_loop_frame:
  "plot_loop cols s = (r, s') \<Longrightarrow>
     fs s' = fs s \<and> writable s' = writable s \<and> stdout s' = stdout s \<and> df s' = df s"
proof (induction cols arbitrary: s)
  case Nil
  then show ?case by simp
next
  case (Cons col cols)
  show ?case
  proof (cases "getitem (df s) (str ''Size'')")
    case (Inl e)
    with Cons.prems show ?thesis by simp
  next
    case x: (Inr x)
    show ?thesis
    proof (cases "getitem (df s) col")
      case (Inl e)
      with x Cons.prems show ?thesis by simp
    next
      case y: (Inr y)
      obtain r1 s1 where p: "plot x y (str ''o'') (str ''-'') col s = (r1, s1)"
        by (cases "plot x y (str ''o'') (str ''-'') col s")
      note f1 = plot_frame [OF p]
      show ?thesis
      proof (cases r1)
        case None
        with x y p Cons.prems have "plot_loop cols s1 = (r, s')" by simp
        from Cons.IH [OF this] f1 show ?thesis by simp
      next
        case (Some e)
        with x y p Cons.prems have "s' = s1" by simp
        with f1 show ?thesis by simp
      qed
    qed
  qed
qed

lemma styling_eq:
  "exec styling s =
     (None, s\<lparr>fig := (fig s)\<lparr>xlabel := str ''Number of Matrices'',
        ylabel := str ''Execution Time (ms)'',
        title := str ''Matrix Chain Multiplication: D&C vs DP'',
        legend := Some (filter shown_in_legend (map label (lines (fig s)))),
        grid := Some (str ''--'', 0.7)\<rparr>\<rparr>)"
  by (simp add: styling_def plt_xlabel_def plt_ylabel_def plt_title_def plt_legend_def plt_grid_def)

lemma main_load_fail: "read_csv (str ''times.csv'') s = Inl e \<Longrightarrow> main s = (Some e, s)"
  by (simp add: main_def script_def load_stmt_def)

lemma read_csv_Table: "fs s (str ''times.csv'') = Some (Table d) \<Longrightarrow> read_csv (str ''times.csv'') s = Inr d"
  by (simp add: read_csv_def)

lemma read_csv_Inr: "read_csv p s = Inr d \<Longrightarrow> fs s p = Some (Table d)"
  by (simp add: read_csv_def split: option.splits fs_entry.splits)

lemma read_csv_Inl:
  "read_csv p s = Inl e \<Longrightarrow> e = (if fs s p = None then FileNotFoundError else ParserError)"
  by (auto simp: read_csv_def split: option.splits fs_entry.splits)

lemma main_Table:
  assumes "fs s (str ''times.csv'') = Some (Table d)"
  shows "main s =
     exec (plot_stmt # styling @ [xticks_stmt, savefig_stmt, print_saved_stmt])
       (s\<lparr>df := trimmed d,
          stdout := stdout s @ [[Str (str ''Columns:''), StrList (str_strip (columns d))]]\<rparr>)"
  using read_csv_Table [OF assms]
  by (simp add: main_def script_def load_stmt_def normalize_stmt_eq print_columns_stmt_def
      py_print_def columns_trimmed)

lemma getitem_KeyError:
  assumes "key \<notin> set (columns d)"
  shows "getitem d key = Inl KeyError"
proof -
  from assms have "filter (\<lambda>c. fst c = key) d = []"
    by (induction d) (auto simp: columns_def)
  then show ?thesis by (simp add: getitem_def)
qed

lemma getitem_Inr: "getitem d key = Inr x \<Longrightarrow> key \<in> set (columns d)"
  by (cases "key \<in> set (columns d)") (simp_all add: getitem_KeyError)

lemma getitem_distinct:
  assumes "distinct (columns d)" and "(k, v) \<in> set d"
  shows "getitem d k = Inr [v]"
proof -
  from assms have "filter (\<lambda>c. fst c = k) d = [(k, v)]"
  proof (induction d)
    case Nil
    then show ?case by simp
  next
    case (Cons c d)
    show ?case
    proof (cases "c = (k, v)")
      case True
      with Cons.prems(1) have "k \<notin> fst ` set d" by (simp add: columns_def)
      then have "filter (\<lambda>c. fst c = k) d = []"
        by (auto simp: filter_empty_conv)
      with True show ?thesis by simp
    next
      case False
      with Cons.prems have in_d: "(k, v) \<in> set d" by simp
      then have "k \<in> fst ` set d" by force
      with Cons.prems(1) have "fst c \<noteq> k" by (auto simp: columns_def)
      moreover from Cons.prems(1) have "distinct (columns d)" by (simp add: columns_def)
      ultimately show ?thesis using Cons.IH in_d by simp
    qed
  qed
  then show ?thesis by (simp add: getitem_def)
qed

lemma plot_loop_KeyError:
  "getitem (df s) (str ''Size'') = Inl KeyError \<Longrightarrow> cols \<noteq> [] \<Longrightarrow>
     plot_loop cols s = (Some KeyError, s)"
  by (cases cols) simp_all

lemma xticks_stmt_KeyError:
  "getitem (df s) (str ''Size'') = Inl KeyError \<Longrightarrow> xticks_stmt s = (Some KeyError, s)"
  by (simp add: xticks_stmt_def)

lemma plot_single:
  "lab \<noteq> [] \<Longrightarrow> plot [x] [y] m ls lab s =
     (None, s\<lparr>fig := (fig s)\<lparr>lines := lines (fig s) @
        [\<lparr>xdata = x, ydata = y, marker = m, linestyle = ls, label = lab\<rparr>]\<rparr>\<rparr>)"
  by (simp add: plot_def line_label_def)

lemma getitem_found:
  assumes "key \<in> set (columns d)"
  shows "getitem d key \<noteq> Inl KeyError"
proof -
  from assms have "filter (\<lambda>c. fst c = key) d \<noteq> []"
    by (auto simp: columns_def filter_empty_conv)
  then show ?thesis by (simp add: getitem_def split: list.splits)
qed

lemma plot_loop_distinct:
  assumes "distinct (columns (df s))"
    and "getitem (df s) (str ''Size'') = Inr [x]"
    and "set cs \<subseteq> set (df s)"
    and "[] \<notin> fst ` set cs"
  shows "plot_loop (map fst cs) s =
     (None, s\<lparr>fig := (fig s)\<lparr>lines := lines (fig s) @ map (series x) cs\<rparr>\<rparr>)"
  using assms
proof (induction cs arbitrary: s)
  case Nil
  then show ?case by simp
next
  case (Cons c cs)
  let ?s1 = "s\<lparr>fig := (fig s)\<lparr>lines := lines (fig s) @ [series x c]\<rparr>\<rparr>"
  from Cons.prems have "(fst c, snd c) \<in> set (df s)" by simp
  from getitem_distinct [OF Cons.prems(1) this]
  have y: "getitem (df s) (fst c) = Inr [snd c]" .
  have "plot_loop (map fst cs) ?s1 =
     (None, ?s1\<lparr>fig := (fig ?s1)\<lparr>lines := lines (fig ?s1) @ map (series x) cs\<rparr>\<rparr>)"
    using Cons.prems by (intro Cons.IH) simp_all
  moreover from Cons.prems(4) have "fst c \<noteq> []" by auto
  ultimately show ?case using y Cons.prems(2)
    by (simp add: plot_single)
qed

text \<open>
  The whole run on a file that parses, in terms of what the loop of lines 12 and 13 did:
  the rest of the script is straight-line code.
\<close>

lemma main_after_plot:
  assumes t: "fs s (str ''times.csv'') = Some (Table d)"
    and p: "plot_loop (drop 1 (str_strip (columns d)))
              (s\<lparr>df := trimmed d, stdout := stdout s @ [columns_line d]\<rparr>) = (r, s2)"
  shows "main s =
     (case r of
        Some e \<Rightarrow> (Some e, s2)
      | None \<Rightarrow>
          (case getitem (trimmed d) (str ''Size'') of
             Inl e \<Rightarrow> (Some e, s2\<lparr>fig := styled (fig s2)\<rparr>)
           | Inr ticks \<Rightarrow>
               (case ticks of
                  [locs] \<Rightarrow>
                    (if writable s (str ''plot.png'')
                     then (None, s2\<lparr>fig := (styled (fig s2))\<lparr>xtick_locs := Some locs\<rparr>,
                             fs := (fs s)(str ''plot.png'' \<mapsto>
                               Image ((styled (fig s2))\<lparr>xtick_locs := Some locs\<rparr>) 300 (str ''tight'')),
                             stdout := stdout s @ [columns_line d, [Str saved_message]]\<rparr>)
                     else (Some OSError, s2\<lparr>fig := (styled (fig s2))\<lparr>xtick_locs := Some locs\<rparr>\<rparr>))
                | _ \<Rightarrow> (Some ValueError, s2\<lparr>fig := styled (fig s2)\<rparr>))))"
proof -
  note f = plot_loop_frame [OF p]
  show ?thesis
  proof (cases r)
    case (Some e)
    with p show ?thesis
      by (simp add: main_Table [OF t] plot_stmt_def columns_trimmed)
  next
    case None
    with p have m: "main s = exec [xticks_stmt, savefig_stmt, print_saved_stmt] (s2\<lparr>fig := styled (fig s2)\<rparr>)"
      by (simp add: main_Table [OF t] plot_stmt_def columns_trimmed exec_append styling_eq)
    show ?thesis
    proof (cases "getitem (trimmed d) (str ''Size'')")
      case (Inl e)
      with f None show ?thesis by (simp add: m xticks_stmt_def)
    next
      case (Inr ticks)
      show ?thesis
      proof (cases "\<exists>locs. ticks = [locs]")
        case True
        then obtain locs where "ticks = [locs]" by blast
        with f None Inr show ?thesis
          by (simp add: m xticks_stmt_def plt_xticks_def savefig_stmt_def plt_savefig_def
              print_saved_stmt_def py_print_def)
      next
        case False
        then consider "ticks = []" | a b cs where "ticks = a # b # cs"
          by (cases ticks; cases "tl ticks") auto
        then show ?thesis
        proof cases
          case 1
          with f None Inr show ?thesis
            by (simp add: m xticks_stmt_def plt_xticks_def)
        next
          case 2
          with f None Inr show ?thesis
            by (simp add: m xticks_stmt_def plt_xticks_def)
        qed
      qed
    qed
  qed
qed

text \<open>What a run that ends without an exception went through.\<close>

lemma main_success:
  assumes "main s = (None, s')"
  obtains d s2 locs where
    "fs s (str ''times.csv'') = Some (Table d)"
    "plot_loop (drop 1 (str_strip (columns d)))
       (s\<lparr>df := trimmed d, stdout := stdout s @ [columns_line d]\<rparr>) = (None, s2)"
    "getitem (trimmed d) (str ''Size'') = Inr [locs]"
    "writable s (str ''plot.png'')"
    "s' = s2\<lparr>fig := (styled (fig s2))\<lparr>xtick_locs := Some locs\<rparr>,
             fs := (fs s)(str ''plot.png'' \<mapsto>
               Image ((styled (fig s2))\<lparr>xtick_locs := Some locs\<rparr>) 300 (str ''tight'')),
             stdout := stdout s @ [columns_line d, [Str saved_message]]\<rparr>"
proof -
  obtain d where t: "fs s (str ''times.csv'') = Some (Table d)"
  proof (cases "read_csv (str ''times.csv'') s")
    case (Inl e)
    from main_load_fail [OF this] assms show ?thesis by simp
  next
    case (Inr d)
    from read_csv_Inr [OF this] show ?thesis by (rule that)
  qed
  obtain r s2 where p: "plot_loop (drop 1 (str_strip (columns d)))
       (s\<lparr>df := trimmed d, stdout := stdout s @ [columns_line d]\<rparr>) = (r, s2)"
    by (cases "plot_loop (drop 1 (str_strip (columns d)))
       (s\<lparr>df := trimmed d, stdout := stdout s @ [columns_line d]\<rparr>)")
  note m = main_after_plot [OF t p]
  from m assms have r: "r = None" by (cases r) simp_all
  from m assms r obtain ticks where g: "getitem (trimmed d) (str ''Size'') = Inr ticks"
    by (cases "getitem (trimmed d) (str ''Size'')") simp_all
  from m assms r g obtain locs where l: "ticks = [locs]"
    by (cases ticks; cases "tl ticks") auto
  from m assms r g l have w: "writable s (str ''plot.png'')"
    by (cases "writable s (str ''plot.png'')") simp_all
  from m assms r g l w have "s' = s2\<lparr>fig := (styled (fig s2))\<lparr>xtick_locs := Some locs\<rparr>,
             fs := (fs s)(str ''plot.png'' \<mapsto>
               Image ((styled (fig s2))\<lparr>xtick_locs := Some locs\<rparr>) 300 (str ''tight'')),
             stdout := stdout s @ [columns_line d, [Str saved_message]]\<rparr>"
    by simp
  with t p r g l w that show ?thesis by blast
qed

lemma example_succeeds: "main example_state = (None, snd (main example_state))"
  by (simp add: run_defs example_state_def example_table_def)

lemma example_file: "fs example_state (str ''times.csv'') = Some (Table example_table)"
  by (simp add: example_state_def initial_def)

section \<open>Tick marks\<close>

text \<open>
  C1, as the code has it. In every run that ends without an exception, exactly one column
  of the file has the trimmed label \<open>Size\<close>, and the tick locations set on the x-axis
  are the cells of that column, as they are: in row order, none added, none left out, and
  a value that occurs in several rows is there once per row.
\<close>

theorem xticks_are_size_column:
  assumes "main s = (None, s')"
  shows "\<exists>d locs. fs s (str ''times.csv'') = Some (Table d) \<and>
           map snd (filter (\<lambda>c. strip (fst c) = str ''Size'') d) = [locs] \<and>
           xtick_locs (fig s') = Some locs"
proof -
  from assms obtain d locs where t: "fs s (str ''times.csv'') = Some (Table d)"
    and g: "getitem (trimmed d) (str ''Size'') = Inr [locs]"
    and x: "xtick_locs (fig s') = Some locs"
    by (rule main_success) simp
  have "map snd (filter (\<lambda>c. fst c = str ''Size'') (trimmed d)) =
        map snd (filter (\<lambda>c. strip (fst c) = str ''Size'') d)"
    by (induction d) simp_all
  with g have "map snd (filter (\<lambda>c. strip (fst c) = str ''Size'') d) = [locs]"
    by (simp add: getitem_def split: list.splits)
  with t x show ?thesis by auto
qed

text \<open>
  On the table of the scenario the ticks are 1 and 2.
\<close>

theorem xticks_are_size_column_witness:
  "xtick_locs (fig (snd (main example_state))) = Some [1, 2]"
  using xticks_are_size_column [OF example_succeeds]
  by (simp add: example_file) (simp add: example_table_def strip_def is_space_def str_def)

text \<open>
  C1 as stated does not hold: with the value 1 in two rows of \<open>Size\<close> the run ends
  well and the tick locations are 1 and 1, not the distinct values.
\<close>

theorem repeated_size_ticks:
  "fst (main repeated_size_state) = None \<and>
   xtick_locs (fig (snd (main repeated_size_state))) = Some [1, 1] \<and>
   xtick_locs (fig (snd (main repeated_size_state))) \<noteq> Some (remdups [1, 1])"
  by (simp add: run_defs repeated_size_state_def)

section \<open>One line per column\<close>

text \<open>
  C2, as the code has it. When the labels of the file are pairwise different after
  trimming, \<open>Size\<close> is among them and none after the first is empty, the run draws
  one line for every column but the first, in column order: \<open>length d - 1\<close> lines, each with the marker \<open>o\<close>, the
  line style \<open>-\<close>, the trimmed label of its column, the cells of its column as y-values
  and the cells of the \<open>Size\<close> column as x-values, in row order, neither sorted nor
  deduplicated.
\<close>

theorem one_series_per_column:
  assumes "fs s (str ''times.csv'') = Some (Table d)"
    and "distinct (str_strip (columns d))"
    and "str ''Size'' \<in> set (str_strip (columns d))"
    and "[] \<notin> set (drop 1 (str_strip (columns d)))"
  shows "\<exists>x. map snd (filter (\<lambda>c. strip (fst c) = str ''Size'') d) = [x] \<and>
           lines (fig (snd (main s))) =
             lines (fig s) @
             map (\<lambda>c. \<lparr>xdata = x, ydata = snd c, marker = str ''o'', linestyle = str ''-'',
                        label = strip (fst c)\<rparr>) (drop 1 d) \<and>
           length (lines (fig (snd (main s)))) = length (lines (fig s)) + (length d - 1)"
proof -
  let ?s1 = "s\<lparr>df := trimmed d, stdout := stdout s @ [columns_line d]\<rparr>"
  from assms(3) obtain c where c: "c \<in> set d" "strip (fst c) = str ''Size''"
    by (auto simp: str_strip_def columns_def)
  from assms(2) have dist: "distinct (columns (df ?s1))"
    by (simp add: columns_trimmed)
  from c have "(str ''Size'', snd c) \<in> set (trimmed d)" by force
  with dist have g: "getitem (trimmed d) (str ''Size'') = Inr [snd c]"
    by (simp add: getitem_distinct)
  have "map snd (filter (\<lambda>c. fst c = str ''Size'') (trimmed d)) =
        map snd (filter (\<lambda>c. strip (fst c) = str ''Size'') d)"
    by (induction d) simp_all
  with g have x: "map snd (filter (\<lambda>c. strip (fst c) = str ''Size'') d) = [snd c]"
    by (simp add: getitem_def split: list.splits)
  have fsts: "map fst (drop 1 (trimmed d)) = drop 1 (str_strip (columns d))"
    by (simp add: str_strip_def columns_def drop_map)
  have "fst ` set (drop 1 (trimmed d)) = set (drop 1 (str_strip (columns d)))"
    using fsts by (metis set_map)
  with assms(4) have ne: "[] \<notin> fst ` set (drop 1 (trimmed d))"
    by blast
  have "set (drop 1 (trimmed d)) \<subseteq> set (df ?s1)"
    by (auto dest: in_set_dropD)
  with dist g ne have "plot_loop (map fst (drop 1 (trimmed d))) ?s1 =
     (None, ?s1\<lparr>fig := (fig ?s1)\<lparr>lines := lines (fig ?s1) @ map (series (snd c)) (drop 1 (trimmed d))\<rparr>\<rparr>)"
    by (intro plot_loop_distinct) simp_all
  with fsts have p: "plot_loop (drop 1 (str_strip (columns d))) ?s1 =
     (None, ?s1\<lparr>fig := (fig ?s1)\<lparr>lines := lines (fig ?s1) @ map (series (snd c)) (drop 1 (trimmed d))\<rparr>\<rparr>)"
    by simp
  have l: "lines (fig (snd (main s))) = lines (fig s) @ map (series (snd c)) (drop 1 (trimmed d))"
    by (simp add: main_after_plot [OF assms(1) p] g)
  have "map (series (snd c)) (drop 1 (trimmed d)) =
        map (\<lambda>e. \<lparr>xdata = snd c, ydata = snd e, marker = str ''o'', linestyle = str ''-'',
                        label = strip (fst e)\<rparr>) (drop 1 d)"
    by (simp add: drop_map)
  with l x show ?thesis by simp
qed

text \<open>
  On the table of the scenario: two lines, \<open>DP\<close> and \<open>DC\<close>, over the sizes 1 and 2.
\<close>

theorem one_series_per_column_witness:
  "lines (fig (snd (main example_state))) =
     [\<lparr>xdata = [1, 2], ydata = [10, 20], marker = str ''o'', linestyle = str ''-'',
        label = str ''DP''\<rparr>,
      \<lparr>xdata = [1, 2], ydata = [12, 18], marker = str ''o'', linestyle = str ''-'',
        label = str ''DC''\<rparr>]"
  using one_series_per_column [of example_state example_table]
  by (simp add: example_file)
    (simp add: example_state_def example_table_def initial_def new_figure_def columns_def
      str_strip_def strip_def is_space_def str_def)

text \<open>
  C2 as stated does not hold for every table. With two columns labelled \<open>DP\<close> after
  trimming, \<open>df["DP"]\<close> selects both in each round and \<open>plot\<close> draws a line for
  each: four lines for three columns. With no column \<open>Size\<close> the first round raises
  \<open>KeyError\<close> and no line is drawn for two columns. With a label of blanks only,
  the trimmed name is empty and the line is labelled \<open>_child0\<close> instead.
\<close>

theorem series_count_differs:
  "fst (main repeated_label_state) = None \<and>
   length repeated_label_table = 3 \<and>
   length (lines (fig (snd (main repeated_label_state)))) = 4 \<and>
   fst (main no_size_state) = Some KeyError \<and>
   length no_size_table = 2 \<and>
   length (lines (fig (snd (main no_size_state)))) = 0 \<and>
   str_strip (columns blank_label_table) = [str ''Size'', [], str ''DP''] \<and>
   map label (lines (fig (snd (main blank_label_state)))) = [str ''_child0'', str ''DP'']"
  by (simp add: run_defs repeated_label_state_def repeated_label_table_def no_size_state_def
      no_size_table_def blank_label_state_def blank_label_table_def)

section \<open>Header normalisation is idempotent\<close>

text \<open>
  C3. Trimming the column names twice gives the same names as trimming them once, for
  every list of names.
\<close>

theorem str_strip_idempotent: "str_strip (str_strip names) = str_strip names"
  by (simp add: str_strip_def strip_strip)

section \<open>Standard output\<close>

text \<open>
  C4. A run that ends without an exception has read a table from \<open>times.csv\<close> and
  has written exactly two lines to the standard output: the word \<open>Columns:\<close> with the
  list of the trimmed column names, in column order, and then the message that the plot
  was saved.
\<close>

theorem stdout_two_lines:
  assumes "main s = (None, s')"
  shows "\<exists>d. fs s (str ''times.csv'') = Some (Table d) \<and>
           stdout s' = stdout s @
             [[Str (str ''Columns:''), StrList (str_strip (columns d))], [Str saved_message]]"
  using assms by (rule main_success) simp

text \<open>
  On the table of the scenario the names printed are \<open>Size\<close>, \<open>DP\<close> and \<open>DC\<close>.
\<close>

theorem stdout_two_lines_witness:
  "stdout (snd (main example_state)) =
     [[Str (str ''Columns:''), StrList [str ''Size'', str ''DP'', str ''DC'']],
      [Str saved_message]]"
  using stdout_two_lines [OF example_succeeds]
  by (simp add: example_file)
    (simp add: example_state_def example_table_def initial_def columns_def str_strip_def
      strip_def is_space_def str_def)

section \<open>Styling\<close>

text \<open>
  C5. Lines 15 to 19 raise nothing, whatever the chart: afterwards the x-axis label is
  \<open>Number of Matrices\<close>, the y-axis label \<open>Execution Time (ms)\<close>, the title
  \<open>Matrix Chain Multiplication: D&C vs DP\<close>, there is a legend whose entries are the
  labels of the lines drawn (those that matplotlib shows), and a dashed grid with an
  opacity strictly between 0 and 1. The lines, the ticks, the files, the output and the
  table are as before.
\<close>

theorem styling_sets_decorations:
  "\<exists>s'. exec styling s = (None, s') \<and>
     xlabel (fig s') = str ''Number of Matrices'' \<and>
     ylabel (fig s') = str ''Execution Time (ms)'' \<and>
     title (fig s') = str ''Matrix Chain Multiplication: D&C vs DP'' \<and>
     legend (fig s') = Some (filter shown_in_legend (map label (lines (fig s)))) \<and>
     grid (fig s') = Some (str ''--'', 0.7) \<and>
     0 < snd (the (grid (fig s'))) \<and> snd (the (grid (fig s'))) < 1 \<and>
     lines (fig s') = lines (fig s) \<and> xtick_locs (fig s') = xtick_locs (fig s) \<and>
     fs s' = fs s \<and> stdout s' = stdout s \<and> df s' = df s"
  by (simp add: styling_eq)

section \<open>The image\<close>

text \<open>
  C6. After a run that ends without an exception, the file \<open>plot.png\<close> holds the
  chart as it is at the end of the run, written at 300 dots per inch with the tight
  bounding box.
\<close>

theorem image_saved:
  assumes "main s = (None, s')"
  shows "fs s' (str ''plot.png'') = Some (Image (fig s') 300 (str ''tight''))"
  using assms by (rule main_success) simp

text \<open>
  So it is on the table of the scenario.
\<close>

theorem image_saved_witness:
  "fs (snd (main example_state)) (str ''plot.png'') =
     Some (Image (fig (snd (main example_state))) 300 (str ''tight''))"
  using image_saved [OF example_succeeds] .

section \<open>A file that cannot be loaded\<close>

text \<open>
  C7. When \<open>read_csv\<close> fails on \<open>times.csv\<close>, the run ends with that very
  exception, \<open>FileNotFoundError\<close> for a missing file and a parser error otherwise, in
  the state in which it started: no file written, nothing printed, nothing caught.
\<close>

theorem load_failure_aborts:
  assumes "read_csv (str ''times.csv'') s = Inl e"
  shows "main s = (Some e, s) \<and>
         e = (if fs s (str ''times.csv'') = None then FileNotFoundError else ParserError)"
  using main_load_fail [OF assms] read_csv_Inl [OF assms] by simp

text \<open>
  A run with no file, and a run with a file that is not a table.
\<close>

theorem load_failure_aborts_witness:
  "main missing_state = (Some FileNotFoundError, missing_state) \<and>
   main garbage_state = (Some ParserError, garbage_state)"
  using load_failure_aborts [of missing_state FileNotFoundError]
    load_failure_aborts [of garbage_state ParserError]
  by (simp add: missing_state_def garbage_state_def read_csv_def initial_def)

section \<open>A table with the size column only\<close>

text \<open>
  C8. When the only column of the file is \<open>Size\<close> (after trimming) and
  \<open>plot.png\<close> can be written, the run ends without an exception, with no line
  drawn, a legend with no entry, and the chart saved.
\<close>

theorem size_only_table:
  assumes "files (str ''times.csv'') = Some (Table [(n, x)])"
    and "strip n = str ''Size''"
    and "w (str ''plot.png'')"
  shows "\<exists>s'. main (initial files w) = (None, s') \<and>
           lines (fig s') = [] \<and> legend (fig s') = Some [] \<and>
           fs s' (str ''plot.png'') = Some (Image (fig s') 300 (str ''tight''))"
proof -
  let ?s = "initial files w"
  have t: "fs ?s (str ''times.csv'') = Some (Table [(n, x)])"
    using assms(1) by (simp add: initial_def)
  have p: "plot_loop (drop 1 (str_strip (columns [(n, x)])))
       (?s\<lparr>df := trimmed [(n, x)], stdout := stdout ?s @ [columns_line [(n, x)]]\<rparr>) =
     (None, ?s\<lparr>df := trimmed [(n, x)], stdout := stdout ?s @ [columns_line [(n, x)]]\<rparr>)"
    by (simp add: str_strip_def columns_def)
  have g: "getitem (trimmed [(n, x)]) (str ''Size'') = Inr [x]"
    using assms(2) by (simp add: getitem_def)
  have w: "writable ?s (str ''plot.png'')"
    using assms(3) by (simp add: initial_def)
  from g w show ?thesis
    by (simp add: main_after_plot [OF t p]) (simp add: initial_def new_figure_def)
qed

text \<open>
  A file with the single label \<open>Size\<close> between blanks.
\<close>

theorem size_only_table_witness:
  "\<exists>s'. main (initial size_only_files (\<lambda>p. True)) = (None, s') \<and>
     lines (fig s') = [] \<and> legend (fig s') = Some [] \<and>
     fs s' (str ''plot.png'') = Some (Image (fig s') 300 (str ''tight''))"
  using size_only_table [of size_only_files "str '' Size ''" "[1, 2]" "\<lambda>p. True"]
  by (simp add: size_only_files_def strip_def is_space_def str_def)

section \<open>Only the labels change\<close>

text \<open>
  C9. Line 8 raises nothing and changes the labels only: every label is trimmed, in
  place; the cells, the number and the order of the columns, and everything else in the
  state are as before. No later statement assigns the table: at the end of a run on a
  file that parses, however it ends, the table is the one loaded with its labels trimmed.
\<close>

theorem normalize_changes_labels_only:
  "normalize_stmt s = (None, s\<lparr>df := map (\<lambda>c. (strip (fst c), snd c)) (df s)\<rparr>) \<and>
   (fs s (str ''times.csv'') = Some (Table d) \<longrightarrow>
      df (snd (main s)) = map (\<lambda>c. (strip (fst c), snd c)) d \<and>
      map snd (df (snd (main s))) = map snd d \<and>
      length (df (snd (main s))) = length d)"
proof (intro conjI impI)
  show "normalize_stmt s = (None, s\<lparr>df := trimmed (df s)\<rparr>)"
    by (rule normalize_stmt_eq)
next
  assume t: "fs s (str ''times.csv'') = Some (Table d)"
  obtain r s2 where p: "plot_loop (drop 1 (str_strip (columns d)))
       (s\<lparr>df := trimmed d, stdout := stdout s @ [columns_line d]\<rparr>) = (r, s2)"
    by (cases "plot_loop (drop 1 (str_strip (columns d)))
       (s\<lparr>df := trimmed d, stdout := stdout s @ [columns_line d]\<rparr>)")
  from plot_loop_frame [OF p] have "df s2 = trimmed d" by simp
  then show m: "df (snd (main s)) = trimmed d"
    by (simp add: main_after_plot [OF t p] split: option.splits sum.splits list.splits)
  then show "map snd (df (snd (main s))) = map snd d" by (simp add: comp_def)
  from m show "length (df (snd (main s))) = length d" by simp
qed

text \<open>
  The table of the scenario at the end of the run.
\<close>

theorem normalize_changes_labels_only_witness:
  "df (snd (main example_state)) =
     [(str ''Size'', [1, 2]), (str ''DP'', [10, 20]), (str ''DC'', [12, 18])]"
  using normalize_changes_labels_only [of example_state example_table]
  by (simp add: example_file) (simp add: example_table_def strip_def is_space_def str_def)

section \<open>No size column\<close>

text \<open>
  C10. When no column of the file has the trimmed label \<open>Size\<close>, the lookup of
  \<open>"Size"\<close> raises \<open>KeyError\<close>, while every label of the table can be looked up: the
  columns to plot are taken by position, all but the first, and only the x-values by the
  name \<open>Size\<close>. With a column after the first, the loop raises in its first round: the
  run ends there, after the first \<open>print\<close> and before any styling. With no such column
  the loop does nothing, lines 15 to 19 run, and the lookup for the ticks raises. Either
  way the files are as before the run, so no image is written, and no line is drawn.
\<close>

theorem missing_size_KeyError:
  assumes "fs s (str ''times.csv'') = Some (Table d)"
    and "str ''Size'' \<notin> set (str_strip (columns d))"
  shows "getitem (trimmed d) (str ''Size'') = Inl KeyError \<and>
         (\<forall>col \<in> set (str_strip (columns d)). getitem (trimmed d) col \<noteq> Inl KeyError) \<and>
         (if 1 < length d
          then plot_stmt (s\<lparr>df := trimmed d, stdout := stdout s @ [columns_line d]\<rparr>) =
                 (Some KeyError, s\<lparr>df := trimmed d, stdout := stdout s @ [columns_line d]\<rparr>) \<and>
               main s = (Some KeyError, s\<lparr>df := trimmed d, stdout := stdout s @ [columns_line d]\<rparr>)
          else plot_stmt (s\<lparr>df := trimmed d, stdout := stdout s @ [columns_line d]\<rparr>) =
                 (None, s\<lparr>df := trimmed d, stdout := stdout s @ [columns_line d]\<rparr>) \<and>
               xticks_stmt (s\<lparr>df := trimmed d, stdout := stdout s @ [columns_line d],
                               fig := styled (fig s)\<rparr>) =
                 (Some KeyError, s\<lparr>df := trimmed d, stdout := stdout s @ [columns_line d],
                                    fig := styled (fig s)\<rparr>) \<and>
               main s = (Some KeyError, s\<lparr>df := trimmed d, stdout := stdout s @ [columns_line d],
                                          fig := styled (fig s)\<rparr>)) \<and>
         fs (snd (main s)) = fs s \<and> lines (fig (snd (main s))) = lines (fig s)"
proof -
  let ?s1 = "s\<lparr>df := trimmed d, stdout := stdout s @ [columns_line d]\<rparr>"
  let ?s3 = "s\<lparr>df := trimmed d, stdout := stdout s @ [columns_line d], fig := styled (fig s)\<rparr>"
  from assms(2) have k: "getitem (trimmed d) (str ''Size'') = Inl KeyError"
    by (simp add: getitem_KeyError columns_trimmed)
  then have k1: "getitem (df ?s1) (str ''Size'') = Inl KeyError"
    and k3: "getitem (df ?s3) (str ''Size'') = Inl KeyError"
    by simp_all
  have found: "\<forall>col \<in> set (str_strip (columns d)). getitem (trimmed d) col \<noteq> Inl KeyError"
    using getitem_found [of _ "trimmed d"] by (simp add: columns_trimmed)
  have len: "(drop 1 (columns (df ?s1)) = []) = (\<not> 1 < length d)"
    by (auto simp: columns_def)
  show ?thesis
  proof (cases "1 < length d")
    case True
    with len have "drop 1 (columns (df ?s1)) \<noteq> []" by simp
    from plot_loop_KeyError [OF k1 this]
    have p: "plot_stmt ?s1 = (Some KeyError, ?s1)"
      by (simp add: plot_stmt_def)
    then have "main s = (Some KeyError, ?s1)"
      by (simp add: main_Table [OF assms(1)])
    with True k found p show ?thesis by simp
  next
    case False
    with len have "drop 1 (columns (df ?s1)) = []" by simp
    then have p: "plot_stmt ?s1 = (None, ?s1)" by (simp add: plot_stmt_def)
    have x: "xticks_stmt ?s3 = (Some KeyError, ?s3)"
      by (rule xticks_stmt_KeyError [OF k3])
    have "exec styling ?s1 = (None, ?s3)"
      by (simp add: styling_eq)
    with p x have "main s = (Some KeyError, ?s3)"
      by (simp add: main_Table [OF assms(1)] exec_append)
    with False k found p x show ?thesis by simp
  qed
qed

text \<open>
  A run on a table with the columns \<open>N\<close> and \<open>DP\<close> ends in the loop, with the first
  line printed and the chart untouched; a run on a table with the column \<open>N\<close> alone ends
  at the ticks, with the chart styled. Neither writes \<open>plot.png\<close>.
\<close>

theorem missing_size_KeyError_witness:
  "main no_size_state =
     (Some KeyError,
      no_size_state\<lparr>df := no_size_table,
        stdout := [[Str (str ''Columns:''), StrList [str ''N'', str ''DP'']]]\<rparr>) \<and>
   main lone_column_state =
     (Some KeyError,
      lone_column_state\<lparr>df := lone_column_table,
        stdout := [[Str (str ''Columns:''), StrList [str ''N'']]],
        fig := styled new_figure\<rparr>) \<and>
   fs (snd (main no_size_state)) (str ''plot.png'') = None \<and>
   fs (snd (main lone_column_state)) (str ''plot.png'') = None"
  using missing_size_KeyError [of no_size_state no_size_table]
    missing_size_KeyError [of lone_column_state lone_column_table]
  by (simp add: no_size_state_def no_size_table_def lone_column_state_def lone_column_table_def
      initial_def new_figure_def columns_def str_strip_def strip_def is_space_def str_def)

end
